theory Spec2Isabelle
  imports Complex_Main "HOL-Library.AList"
begin

section \<open>Values shared by the whole package\<close>

text \<open>
  A raised Python exception is a value. \<open>TypeError\<close> and \<open>ValueError\<close> are the two
  exception classes the sources and the generated constructors raise by name;
  \<open>Raised\<close> is any other exception coming out of a plane, a plugin or a collaborator.
\<close>

datatype error = TypeError string | ValueError string | Raised string

text \<open>
  Modelled from the spec: \<open>pygenguard/decision.py\<close> is not among the sources.
  \<open>PlaneResult\<close> has the five fields the tests construct it with, in that order.
\<close>

record PlaneResult =
  plane_name :: string
  passed :: bool
  risk_score :: real
  details :: string
  latency_ms :: real

type_synonym plane_results = "string \<rightharpoonup> PlaneResult"

text \<open>
  Modelled from the spec: \<open>pygenguard/session.py\<close> is not among the sources. The
  pipeline touches a session through \<open>increment_tokens\<close> only; the fields are those of
  the spec's data model.
\<close>

record Session =
  session_user_id :: string
  session_fingerprint :: string
  session_trust_score :: int
  session_tokens_used :: int
  session_history :: "string list"

definition session_increment_tokens :: "nat \<Rightarrow> Session \<Rightarrow> Session" where
  "session_increment_tokens n s = s\<lparr>session_tokens_used := session_tokens_used s + int n\<rparr>"

section \<open>plugins/base.py\<close>

datatype PlanePhase =
  PRE_IDENTITY | POST_IDENTITY | POST_INTENT | POST_CONTEXT | POST_ECONOMICS | POST_COMPLIANCE

record PlaneConfig =
  name :: string
  phase :: PlanePhase
  enabled :: bool
  priority :: int
  fail_action :: string

text \<open>
  A check receives the prompt, the session and the context, whose only entry is the
  \<open>plane_results\<close> dictionary of the evaluation in progress. It returns a
  \<open>PlaneResult\<close> or raises. A check is a function of its three arguments: what
  a check may write to the session or to the context is not modelled.
\<close>

type_synonym check = "string \<Rightarrow> Session \<Rightarrow> plane_results \<Rightarrow> error + PlaneResult"

text \<open>
  A subclass of \<open>BasePlane\<close>: its \<open>get_config\<close>, its \<open>evaluate\<close>, and its own
  \<open>evaluate_async\<close> when it overrides the inherited one.
\<close>

record plane_class =
  get_config :: PlaneConfig
  evaluate :: check
  evaluate_async_override :: "check option"

text \<open>
  An instance: \<open>__init__\<close> stores the class's configuration in \<open>_config\<close>;
  \<open>enable\<close> and \<open>disable\<close> change that copy only.
\<close>

record BasePlane =
  plane_cls :: plane_class
  plane_config :: PlaneConfig

definition new_plane :: "plane_class \<Rightarrow> BasePlane" where
  "new_plane c = \<lparr>plane_cls = c, plane_config = get_config c\<rparr>"

definition evaluate_async :: "BasePlane \<Rightarrow> check" where
  "evaluate_async p =
     (case evaluate_async_override (plane_cls p) of
        None \<Rightarrow> evaluate (plane_cls p)
      | Some f \<Rightarrow> f)"

definition plane_enabled :: "BasePlane \<Rightarrow> bool" where
  "plane_enabled p = enabled (plane_config p)"

definition enable :: "BasePlane \<Rightarrow> BasePlane" where
  "enable p = p\<lparr>plane_config := (plane_config p)\<lparr>enabled := True\<rparr>\<rparr>"

definition disable :: "BasePlane \<Rightarrow> BasePlane" where
  "disable p = p\<lparr>plane_config := (plane_config p)\<lparr>enabled := False\<rparr>\<rparr>"

text \<open>
  \<open>PlaneRegistry\<close>: two dictionaries from names to classes. A Python dictionary keeps
  insertion order and \<open>get_by_phase\<close> depends on it, so each is an association list
  with distinct keys: \<open>AList.update\<close> replaces the value of a key in place and
  appends a new key at the end, as assignment to a dictionary entry does. The global
  registry is a class attribute, shared by all registries of the process; it is a field
  here so that every operation shows what it reads and writes.
\<close>

record PlaneRegistry =
  local_registry :: "(string \<times> plane_class) list"
  global_registry :: "(string \<times> plane_class) list"

definition new_registry :: "(string \<times> plane_class) list \<Rightarrow> PlaneRegistry" where
  "new_registry g = \<lparr>local_registry = [], global_registry = g\<rparr>"

definition duplicate_message :: "string \<Rightarrow> string" where
  "duplicate_message nm =
     ''Plane '' @ [CHR 0x27] @ nm @ [CHR 0x27] @ '' already registered. Use override=True to replace.''"

text \<open>
  \<open>register\<close> returns the class, or raises \<open>ValueError\<close>; the registry after the call
  is the second component in both cases. The \<open>issubclass\<close> test cannot fail on a
  \<open>plane_class\<close>.
\<close>

definition register ::
  "PlaneRegistry \<Rightarrow> plane_class \<Rightarrow> bool \<Rightarrow> (error + plane_class) \<times> PlaneRegistry" where
  "register r c override =
     (let nm = name (get_config c) in
      if map_of (local_registry r) nm \<noteq> None \<and> \<not> override
      then (Inl (ValueError (duplicate_message nm)), r)
      else (Inr c, r\<lparr>local_registry := AList.update nm c (local_registry r)\<rparr>))"

definition unregister :: "PlaneRegistry \<Rightarrow> string \<Rightarrow> bool \<times> PlaneRegistry" where
  "unregister r nm =
     (if map_of (local_registry r) nm \<noteq> None
      then (True, r\<lparr>local_registry := AList.delete nm (local_registry r)\<rparr>)
      else (False, r))"

text \<open>
  \<open>get\<close> is \<open>local.get(name) or global.get(name)\<close>; a class object is truthy, so the
  global registry is consulted exactly when the local one has no entry.
\<close>

definition get :: "PlaneRegistry \<Rightarrow> string \<Rightarrow> plane_class option" where
  "get r nm =
     (case map_of (local_registry r) nm of
        Some c \<Rightarrow> Some c
      | None \<Rightarrow> map_of (global_registry r) nm)"

definition get_all :: "PlaneRegistry \<Rightarrow> (string \<times> plane_class) list" where
  "get_all r = foldl (\<lambda>combined (k, v). AList.update k v combined) (global_registry r) (local_registry r)"

definition get_by_phase :: "PlaneRegistry \<Rightarrow> PlanePhase \<Rightarrow> plane_class list" where
  "get_by_phase r ph =
     sort_key (\<lambda>p. priority (get_config p))
       (filter (\<lambda>p. phase (get_config p) = ph) (map snd (get_all r)))"

definition clear :: "PlaneRegistry \<Rightarrow> PlaneRegistry" where
  "clear r = r\<lparr>local_registry := []\<rparr>"

definition register_global :: "PlaneRegistry \<Rightarrow> plane_class \<Rightarrow> plane_class \<times> PlaneRegistry" where
  "register_global r c =
     (c, r\<lparr>global_registry := AList.update (name (get_config c)) c (global_registry r)\<rparr>)"

section \<open>adapters/base.py: SessionData\<close>

text \<open>
  Python values as far as the model holds them: \<open>None\<close>, a bool, an int, a finite
  float, a string, and lists, tuples and dictionaries of such values. A dataclass does
  not check its annotations, so every field of \<open>SessionData\<close> is such a value. A
  dictionary is an association list in insertion order whose keys are strings or ints; a
  Python dictionary has each key once (\<open>py_valid\<close>). Floats are real numbers. Outside
  the type are the values that \<open>json.dumps\<close> rejects (a set, bytes, an object of a
  class), the floats NaN and infinity, and the dictionary keys that are neither a string
  nor an int.
\<close>

datatype pykey = KStr string | KInt int

datatype pyval =
  PNone | PBool bool | PInt int | PFloat real | PStr string
  | PList "pyval list" | PTuple "pyval list" | PDict "(pykey \<times> pyval) list"

text \<open>
  A JSON document, as its syntax tree. Printing the tree to text and parsing it back is
  the work of the \<open>json\<close> library and of Redis's \<open>cjson\<close>, not of this package.
\<close>

datatype json =
  JNull | JBool bool | JInt int | JFloat real | JStr string
  | JArr "json list" | JObj "(string \<times> json) list"

text \<open>The decimal numeral of an int, as \<open>repr\<close> prints it.\<close>

definition digit :: "nat \<Rightarrow> char" where
  "digit n = ''0123456789'' ! (n mod 10)"

function str_of_nat :: "nat \<Rightarrow> string" where
  "str_of_nat n = (if n < 10 then [digit n] else str_of_nat (n div 10) @ [digit n])"
  by pat_completeness auto
termination
  by (relation "measure id") auto

definition str_of_int :: "int \<Rightarrow> string" where
  "str_of_int i = (if i < 0 then CHR ''-'' # str_of_nat (nat (- i)) else str_of_nat (nat i))"

text \<open>
  \<open>json.dumps\<close>: a tuple is written as an array, like a list, and a key of a
  dictionary that is an int is written as its numeral, since a member name is a string.
\<close>

fun key_string :: "pykey \<Rightarrow> string" where
  "key_string (KStr s) = s"
| "key_string (KInt i) = str_of_int i"

fun json_dumps :: "pyval \<Rightarrow> json" where
  "json_dumps PNone = JNull"
| "json_dumps (PBool b) = JBool b"
| "json_dumps (PInt i) = JInt i"
| "json_dumps (PFloat r) = JFloat r"
| "json_dumps (PStr s) = JStr s"
| "json_dumps (PList xs) = JArr (map json_dumps xs)"
| "json_dumps (PTuple xs) = JArr (map json_dumps xs)"
| "json_dumps (PDict kvs) = JObj (map (\<lambda>(k, v). (key_string k, json_dumps v)) kvs)"

text \<open>
  Building a dictionary from the members of a JSON object, in order: a repeated key keeps
  its first position and takes its last value.
\<close>

definition dict_of_pairs :: "('k \<times> 'v) list \<Rightarrow> ('k \<times> 'v) list" where
  "dict_of_pairs kvs = foldl (\<lambda>d (k, v). AList.update k v d) [] kvs"

text \<open>\<open>json.loads\<close>: an array is read as a list, and every key of an object is a string.\<close>

fun json_loads :: "json \<Rightarrow> pyval" where
  "json_loads JNull = PNone"
| "json_loads (JBool b) = PBool b"
| "json_loads (JInt i) = PInt i"
| "json_loads (JFloat r) = PFloat r"
| "json_loads (JStr s) = PStr s"
| "json_loads (JArr xs) = PList (map json_loads xs)"
| "json_loads (JObj kvs) = PDict (dict_of_pairs (map (\<lambda>(k, v). (KStr k, json_loads v)) kvs))"

fun py_valid :: "pyval \<Rightarrow> bool" where
  "py_valid (PList xs) = list_all py_valid xs"
| "py_valid (PTuple xs) = list_all py_valid xs"
| "py_valid (PDict kvs) = (distinct (map fst kvs) \<and> list_all (\<lambda>(k, v). py_valid v) kvs)"
| "py_valid _ = True"

text \<open>
  The values that JSON holds as they are: no tuple, and strings for the keys of every
  dictionary, at any depth.
\<close>

fun is_str_key :: "pykey \<Rightarrow> bool" where
  "is_str_key (KStr s) = True"
| "is_str_key (KInt i) = False"

fun json_exact :: "pyval \<Rightarrow> bool" where
  "json_exact (PList xs) = list_all json_exact xs"
| "json_exact (PTuple xs) = False"
| "json_exact (PDict kvs) = list_all (\<lambda>(k, v). is_str_key k \<and> json_exact v) kvs"
| "json_exact _ = True"

record SessionData =
  user_id :: pyval
  fingerprint :: pyval
  trust_score :: pyval
  last_seen :: pyval
  tokens_used :: pyval
  session_start :: pyval
  history_summary :: pyval
  metadata :: pyval

definition field_names :: "string list" where
  "field_names = [''user_id'', ''fingerprint'', ''trust_score'', ''last_seen'', ''tokens_used'',
                  ''session_start'', ''history_summary'', ''metadata'']"

text \<open>
  \<open>to_dict\<close> is \<open>dataclasses.asdict\<close>: the fields in declaration order, lists, tuples
  and dictionaries copied with their types kept.
\<close>

definition to_dict :: "SessionData \<Rightarrow> (string \<times> pyval) list" where
  "to_dict d =
     [(''user_id'', user_id d), (''fingerprint'', fingerprint d),
      (''trust_score'', trust_score d), (''last_seen'', last_seen d),
      (''tokens_used'', tokens_used d), (''session_start'', session_start d),
      (''history_summary'', history_summary d), (''metadata'', metadata d)]"

text \<open>The dictionary that \<open>to_dict\<close> returns, as a value.\<close>

definition dict_value :: "(string \<times> pyval) list \<Rightarrow> pyval" where
  "dict_value data = PDict (map (\<lambda>(k, v). (KStr k, v)) data)"

definition to_json :: "SessionData \<Rightarrow> json" where
  "to_json d = json_dumps (dict_value (to_dict d))"

definition field_or :: "(string \<times> pyval) list \<Rightarrow> string \<Rightarrow> pyval \<Rightarrow> pyval" where
  "field_or data k dflt = (case map_of data k of None \<Rightarrow> dflt | Some v \<Rightarrow> v)"

text \<open>
  \<open>from_dict\<close> is \<open>cls(**data)\<close>, the constructor the dataclass generates: a key that is
  not a field, or a missing \<open>user_id\<close> or \<open>fingerprint\<close>, is a \<open>TypeError\<close>; a missing
  field with a default takes it. \<open>now\<close> is the clock reading of the two default
  factories.
\<close>

definition from_dict :: "real \<Rightarrow> (string \<times> pyval) list \<Rightarrow> error + SessionData" where
  "from_dict now data =
     (if \<not> list_all (\<lambda>k. k \<in> set field_names) (map fst data)
      then Inl (TypeError ''__init__() got an unexpected keyword argument'')
      else if map_of data ''user_id'' = None \<or> map_of data ''fingerprint'' = None
      then Inl (TypeError ''__init__() missing required positional argument'')
      else Inr \<lparr>user_id = field_or data ''user_id'' PNone,
                fingerprint = field_or data ''fingerprint'' PNone,
                trust_score = field_or data ''trust_score'' (PInt 100),
                last_seen = field_or data ''last_seen'' (PFloat now),
                tokens_used = field_or data ''tokens_used'' (PInt 0),
                session_start = field_or data ''session_start'' (PFloat now),
                history_summary = field_or data ''history_summary'' (PStr []),
                metadata = field_or data ''metadata'' (PDict [])\<rparr>)"

text \<open>
  \<open>from_json\<close>: \<open>**\<close> applied to anything but a dictionary, or to a dictionary with a
  key that is not a string, is a \<open>TypeError\<close>.
\<close>

fun keyword_args :: "(pykey \<times> pyval) list \<Rightarrow> (string \<times> pyval) list option" where
  "keyword_args [] = Some []"
| "keyword_args ((KStr k, v) # kvs) = (case keyword_args kvs of None \<Rightarrow> None | Some data \<Rightarrow> Some ((k, v) # data))"
| "keyword_args ((KInt i, v) # kvs) = None"

definition from_json :: "real \<Rightarrow> json \<Rightarrow> error + SessionData" where
  "from_json now j =
     (case json_loads j of
        PDict kvs \<Rightarrow>
          (case keyword_args kvs of
             Some data \<Rightarrow> from_dict now data
           | None \<Rightarrow> Inl (TypeError ''keywords must be strings''))
      | _ \<Rightarrow> Inl (TypeError ''argument after ** must be a mapping''))"

section \<open>adapters/base.py: BaseSessionStore\<close>

text \<open>
  \<open>data.tokens_used += count\<close> with an integer \<open>count\<close>: defined on the numeric
  values (a bool is an int), a \<open>TypeError\<close> on every other one.
\<close>

fun py_add_int :: "pyval \<Rightarrow> int \<Rightarrow> error + pyval" where
  "py_add_int (PInt a) c = Inr (PInt (a + c))"
| "py_add_int (PFloat r) c = Inr (PFloat (r + of_int c))"
| "py_add_int (PBool b) c = Inr (PInt ((if b then 1 else 0) + c))"
| "py_add_int _ c = Inl (TypeError ''unsupported operand type(s) for +='')"

text \<open>
  The default \<open>update_trust\<close>, \<open>increment_tokens\<close> and \<open>touch\<close> call the store's own
  \<open>get\<close> and \<open>set\<close>, which are parameters here; \<open>now\<close> is the clock reading written to
  \<open>last_seen\<close>. The state after the call is the second component.
\<close>

definition base_update_trust ::
  "('st \<Rightarrow> string \<Rightarrow> SessionData option \<times> 'st) \<Rightarrow>
   ('st \<Rightarrow> string \<Rightarrow> SessionData \<Rightarrow> int option \<Rightarrow> bool \<times> 'st) \<Rightarrow>
   real \<Rightarrow> 'st \<Rightarrow> string \<Rightarrow> int \<Rightarrow> bool \<times> 'st" where
  "base_update_trust store_get store_set now st uid score =
     (case store_get st uid of
        (None, st') \<Rightarrow> (False, st')
      | (Some data, st') \<Rightarrow>
          store_set st' uid (data\<lparr>trust_score := PInt score, last_seen := PFloat now\<rparr>) None)"

definition base_increment_tokens ::
  "('st \<Rightarrow> string \<Rightarrow> SessionData option \<times> 'st) \<Rightarrow>
   ('st \<Rightarrow> string \<Rightarrow> SessionData \<Rightarrow> int option \<Rightarrow> bool \<times> 'st) \<Rightarrow>
   real \<Rightarrow> 'st \<Rightarrow> string \<Rightarrow> int \<Rightarrow> (error + bool) \<times> 'st" where
  "base_increment_tokens store_get store_set now st uid count =
     (case store_get st uid of
        (None, st') \<Rightarrow> (Inr False, st')
      | (Some data, st') \<Rightarrow>
          (case py_add_int (tokens_used data) count of
             Inl e \<Rightarrow> (Inl e, st')
           | Inr added \<Rightarrow>
               (case store_set st' uid (data\<lparr>tokens_used := added, last_seen := PFloat now\<rparr>) None of
                  (ok, st'') \<Rightarrow> (Inr ok, st''))))"

definition base_touch ::
  "('st \<Rightarrow> string \<Rightarrow> SessionData option \<times> 'st) \<Rightarrow>
   ('st \<Rightarrow> string \<Rightarrow> SessionData \<Rightarrow> int option \<Rightarrow> bool \<times> 'st) \<Rightarrow>
   real \<Rightarrow> 'st \<Rightarrow> string \<Rightarrow> bool \<times> 'st" where
  "base_touch store_get store_set now st uid =
     (case store_get st uid of
        (None, st') \<Rightarrow> (False, st')
      | (Some data, st') \<Rightarrow> store_set st' uid (data\<lparr>last_seen := PFloat now\<rparr>) None)"

section \<open>adapters/memory.py\<close>

text \<open>
  \<open>_store\<close> maps a user id to the session and its expiry time, \<open>None\<close> for no expiry.
  Every operation takes the lock for its whole body, so each is one step on the state.
  The clock reading of an operation is its first argument.
\<close>

record InMemorySessionStore =
  memory_store :: "string \<rightharpoonup> (SessionData \<times> real option)"
  memory_default_ttl :: "int option"

definition is_expired :: "real \<Rightarrow> real option \<Rightarrow> bool" where
  "is_expired now expiry = (case expiry of None \<Rightarrow> False | Some e \<Rightarrow> now > e)"

definition memory_get ::
  "real \<Rightarrow> InMemorySessionStore \<Rightarrow> string \<Rightarrow> SessionData option \<times> InMemorySessionStore" where
  "memory_get now s uid =
     (case memory_store s uid of
        None \<Rightarrow> (None, s)
      | Some (data, expiry) \<Rightarrow>
          if is_expired now expiry
          then (None, s\<lparr>memory_store := (memory_store s)(uid := None)\<rparr>)
          else (Some data, s))"

text \<open>\<open>if effective_ttl:\<close> is false for \<open>None\<close> and for \<open>0\<close>.\<close>

definition memory_set ::
  "real \<Rightarrow> InMemorySessionStore \<Rightarrow> string \<Rightarrow> SessionData \<Rightarrow> int option \<Rightarrow>
   bool \<times> InMemorySessionStore" where
  "memory_set now s uid data ttl =
     (let effective_ttl = (case ttl of Some t \<Rightarrow> Some t | None \<Rightarrow> memory_default_ttl s);
          expiry = (case effective_ttl of
                      None \<Rightarrow> None
                    | Some t \<Rightarrow> if t \<noteq> 0 then Some (now + of_int t) else None)
      in (True, s\<lparr>memory_store := (memory_store s)(uid \<mapsto> (data, expiry))\<rparr>))"

definition memory_delete :: "InMemorySessionStore \<Rightarrow> string \<Rightarrow> bool \<times> InMemorySessionStore" where
  "memory_delete s uid =
     (if memory_store s uid \<noteq> None
      then (True, s\<lparr>memory_store := (memory_store s)(uid := None)\<rparr>)
      else (False, s))"

definition memory_exists ::
  "real \<Rightarrow> InMemorySessionStore \<Rightarrow> string \<Rightarrow> bool \<times> InMemorySessionStore" where
  "memory_exists now s uid =
     (case memory_store s uid of
        None \<Rightarrow> (False, s)
      | Some (data, expiry) \<Rightarrow>
          if is_expired now expiry
          then (False, s\<lparr>memory_store := (memory_store s)(uid := None)\<rparr>)
          else (True, s))"

text \<open>
  \<open>InMemorySessionStore\<close> overrides neither \<open>update_trust\<close> nor \<open>increment_tokens\<close>:
  both are the inherited ones, on its own \<open>get\<close> and \<open>set\<close>. The clock is read three
  times: by \<open>get\<close>, for \<open>last_seen\<close>, and by \<open>set\<close>.
\<close>

definition memory_update_trust ::
  "real \<Rightarrow> real \<Rightarrow> real \<Rightarrow> InMemorySessionStore \<Rightarrow> string \<Rightarrow> int \<Rightarrow>
   bool \<times> InMemorySessionStore" where
  "memory_update_trust t_get t_seen t_set =
     base_update_trust (memory_get t_get) (memory_set t_set) t_seen"

definition memory_increment_tokens ::
  "real \<Rightarrow> real \<Rightarrow> real \<Rightarrow> InMemorySessionStore \<Rightarrow> string \<Rightarrow> int \<Rightarrow>
   (error + bool) \<times> InMemorySessionStore" where
  "memory_increment_tokens t_get t_seen t_set =
     base_increment_tokens (memory_get t_get) (memory_set t_set) t_seen"

section \<open>adapters/redis.py\<close>

text \<open>
  The Redis server at the instant of one command: each key under the prefix holds a JSON
  object and, when it has an expiry, the remaining whole seconds that \<open>TTL\<close> reports.
  \<open>set\<close> and the two scripts are the only writers, and all three write objects. The
  passing of time between commands is the server's and is not modelled. \<open>reachable\<close>
  is false when a command to the server raises; \<open>lua_tonumber\<close> is the interpreter's
  conversion of a string operand of \<open>+\<close> to a number.
\<close>

record RedisSessionStore =
  redis_db :: "string \<rightharpoonup> ((string \<times> json) list \<times> nat option)"
  key_prefix :: string
  redis_default_ttl :: int
  reachable :: bool
  lua_tonumber :: "string \<Rightarrow> real option"

definition redis_key :: "RedisSessionStore \<Rightarrow> string \<Rightarrow> string" where
  "redis_key s uid = key_prefix s @ uid"

fun object_members :: "json \<Rightarrow> (string \<times> json) list" where
  "object_members (JObj members) = members"
| "object_members _ = []"

text \<open>\<open>get\<close> turns every exception, of the server or of \<open>from_json\<close>, into \<open>None\<close>.\<close>

definition redis_get ::
  "real \<Rightarrow> RedisSessionStore \<Rightarrow> string \<Rightarrow> SessionData option \<times> RedisSessionStore" where
  "redis_get now s uid =
     (if \<not> reachable s then (None, s)
      else case redis_db s (redis_key s uid) of
             None \<Rightarrow> (None, s)
           | Some (members, ttl) \<Rightarrow>
               (case from_json now (JObj members) of
                  Inl e \<Rightarrow> (None, s)
                | Inr data \<Rightarrow> (Some data, s)))"

text \<open>
  \<open>SETEX\<close> stores the value with the given seconds to live and rejects a time that is
  not positive; \<open>SET\<close> stores the value with no expiry. \<open>to_json\<close> always yields an
  object.
\<close>

definition redis_set ::
  "RedisSessionStore \<Rightarrow> string \<Rightarrow> SessionData \<Rightarrow> int option \<Rightarrow> bool \<times> RedisSessionStore" where
  "redis_set s uid data ttl =
     (if \<not> reachable s then (False, s)
      else
        let effective_ttl = (case ttl of Some t \<Rightarrow> t | None \<Rightarrow> redis_default_ttl s);
            key = redis_key s uid
        in if effective_ttl \<noteq> 0
           then (if effective_ttl > 0
                 then (True, s\<lparr>redis_db := (redis_db s)
                          (key \<mapsto> (object_members (to_json data), Some (nat effective_ttl)))\<rparr>)
                 else (False, s))
           else (True, s\<lparr>redis_db := (redis_db s)(key \<mapsto> (object_members (to_json data), None))\<rparr>))"

definition redis_delete :: "RedisSessionStore \<Rightarrow> string \<Rightarrow> bool \<times> RedisSessionStore" where
  "redis_delete s uid =
     (if reachable s \<and> redis_db s (redis_key s uid) \<noteq> None
      then (True, s\<lparr>redis_db := (redis_db s)(redis_key s uid := None)\<rparr>)
      else (False, s))"

definition redis_exists :: "RedisSessionStore \<Rightarrow> string \<Rightarrow> bool" where
  "redis_exists s uid = (reachable s \<and> redis_db s (redis_key s uid) \<noteq> None)"

text \<open>
  The two Lua scripts. A Lua number is a real here; \<open>cjson.encode\<close> writes a number
  with no fractional part as an integer. \<open>cjson.decode\<close> followed by \<open>cjson.encode\<close>
  is taken to keep the members it does not assign and their order. \<open>TTL\<close> answers
  \<open>-1\<close> for a key with no expiry. A number returned to the client is truncated to an
  integer.
\<close>

definition cjson_number :: "real \<Rightarrow> json" where
  "cjson_number r = (if r = of_int \<lfloor>r\<rfloor> then JInt \<lfloor>r\<rfloor> else JFloat r)"

definition ttl_reply :: "nat option \<Rightarrow> int" where
  "ttl_reply ttl = (case ttl of None \<Rightarrow> - 1 | Some n \<Rightarrow> int n)"

definition lua_write ::
  "(string \<rightharpoonup> ((string \<times> json) list \<times> nat option)) \<Rightarrow> string \<Rightarrow> (string \<times> json) list \<Rightarrow> int \<Rightarrow>
   (string \<rightharpoonup> ((string \<times> json) list \<times> nat option))" where
  "lua_write db key session ttl =
     (if ttl > 0 then db(key \<mapsto> (session, Some (nat ttl))) else db(key \<mapsto> (session, None)))"

definition lua_truncate :: "real \<Rightarrow> int" where
  "lua_truncate r = (if r \<ge> 0 then \<lfloor>r\<rfloor> else \<lceil>r\<rceil>)"

definition update_trust_script ::
  "(string \<rightharpoonup> ((string \<times> json) list \<times> nat option)) \<Rightarrow> string \<Rightarrow> real \<Rightarrow> real \<Rightarrow>
   int \<times> (string \<rightharpoonup> ((string \<times> json) list \<times> nat option))" where
  "update_trust_script db key new_trust now =
     (case db key of
        None \<Rightarrow> (0, db)
      | Some (data, ttl) \<Rightarrow>
          (let session = dict_of_pairs data;
               session = AList.update ''trust_score'' (cjson_number new_trust) session;
               session = AList.update ''last_seen'' (cjson_number now) session
           in (1, lua_write db key session (ttl_reply ttl))))"

text \<open>
  \<open>session.tokens_used or 0\<close>: a missing member and \<open>false\<close> give \<open>0\<close>; the sum is
  defined for a number and for a string that converts to one, and is an error of the
  script (\<open>None\<close>) otherwise.
\<close>

fun tokens_used_or_0 :: "(string \<Rightarrow> real option) \<Rightarrow> json option \<Rightarrow> real option" where
  "tokens_used_or_0 tonum None = Some 0"
| "tokens_used_or_0 tonum (Some (JBool False)) = Some 0"
| "tokens_used_or_0 tonum (Some (JInt n)) = Some (of_int n)"
| "tokens_used_or_0 tonum (Some (JFloat r)) = Some r"
| "tokens_used_or_0 tonum (Some (JStr s)) = tonum s"
| "tokens_used_or_0 tonum (Some _) = None"

definition increment_tokens_script ::
  "(string \<Rightarrow> real option) \<Rightarrow> (string \<rightharpoonup> ((string \<times> json) list \<times> nat option)) \<Rightarrow> string \<Rightarrow>
   real \<Rightarrow> real \<Rightarrow> (int \<times> (string \<rightharpoonup> ((string \<times> json) list \<times> nat option))) option" where
  "increment_tokens_script tonum db key count now =
     (case db key of
        None \<Rightarrow> Some (0, db)
      | Some (data, ttl) \<Rightarrow>
          (let session = dict_of_pairs data in
           case tokens_used_or_0 tonum (map_of session ''tokens_used'') of
             None \<Rightarrow> None
           | Some old \<Rightarrow>
               (let session = AList.update ''tokens_used'' (cjson_number (old + count)) session;
                    session = AList.update ''last_seen'' (cjson_number now) session
                in Some (lua_truncate (old + count), lua_write db key session (ttl_reply ttl)))))"

text \<open>
  The Python side: the script's reply decides the result; when \<open>eval\<close> raises (the
  server is unreachable, or the script failed) the inherited get-modify-set runs
  instead, with clock readings of its own.
\<close>

definition redis_update_trust ::
  "real \<Rightarrow> real \<Rightarrow> real \<Rightarrow> RedisSessionStore \<Rightarrow> string \<Rightarrow> int \<Rightarrow> bool \<times> RedisSessionStore" where
  "redis_update_trust now t_get t_seen s uid score =
     (if reachable s
      then (case update_trust_script (redis_db s) (redis_key s uid) (of_int score) now of
              (reply, db') \<Rightarrow> (reply = 1, s\<lparr>redis_db := db'\<rparr>))
      else base_update_trust (redis_get t_get) redis_set t_seen s uid score)"

definition redis_increment_tokens ::
  "real \<Rightarrow> real \<Rightarrow> real \<Rightarrow> RedisSessionStore \<Rightarrow> string \<Rightarrow> int \<Rightarrow>
   (error + bool) \<times> RedisSessionStore" where
  "redis_increment_tokens now t_get t_seen s uid count =
     (case (if reachable s
            then increment_tokens_script (lua_tonumber s) (redis_db s) (redis_key s uid) (of_int count) now
            else None) of
        Some (reply, db') \<Rightarrow> (Inr (reply > 0), s\<lparr>redis_db := db'\<rparr>)
      | None \<Rightarrow> base_increment_tokens (redis_get t_get) redis_set t_seen s uid count)"

section \<open>async_guard/guard.py\<close>

text \<open>
  Modelled from the spec: \<open>Decision\<close> and its three constructors are in
  \<open>pygenguard/decision.py\<close>, which is not among the sources. The fields are those of the
  spec's data model. \<open>create_block\<close> gives a decision that is not allowed, with action
  \<open>BLOCK\<close> and the given safe response; \<open>create_degrade\<close> an allowed one with action
  \<open>DEGRADE\<close> (the tests expect \<open>allowed\<close> to hold for it) and a safe response of its
  own, which is a parameter here; \<open>create_allow\<close> an allowed one with action \<open>ALLOW\<close>
  and no safe response.
\<close>

datatype Action = ALLOW | BLOCK | DEGRADE

record Decision =
  trace_id :: string
  allowed :: bool
  action :: Action
  rationale :: string
  safe_response :: "string option"
  plane_results :: plane_results

definition create_block :: "string \<Rightarrow> plane_results \<Rightarrow> string \<Rightarrow> string \<Rightarrow> Decision" where
  "create_block tid results why response =
     \<lparr>trace_id = tid, allowed = False, action = BLOCK, rationale = why,
      safe_response = Some response, plane_results = results\<rparr>"

definition create_degrade :: "string \<Rightarrow> string \<Rightarrow> plane_results \<Rightarrow> string \<Rightarrow> Decision" where
  "create_degrade response tid results why =
     \<lparr>trace_id = tid, allowed = True, action = DEGRADE, rationale = why,
      safe_response = Some response, plane_results = results\<rparr>"

definition create_allow :: "string \<Rightarrow> plane_results \<Rightarrow> string \<Rightarrow> Decision" where
  "create_allow tid results why =
     \<lparr>trace_id = tid, allowed = True, action = ALLOW, rationale = why,
      safe_response = None, plane_results = results\<rparr>"

text \<open>
  \<open>AsyncGuard\<close>. The five built-in planes are in \<open>pygenguard/planes\<close>, which is not
  among the sources: each is the function its \<open>evaluate\<close> computes, which returns a
  \<open>PlaneResult\<close> or raises. The context plane is called with
  \<open>session.get_full_context() + " " + prompt\<close> and \<open>session.history\<close>, both determined by
  the prompt and the session, which are its arguments here. \<open>audit_log\<close> is what the
  audit logger has written. \<open>degrade_response\<close> is the safe response of
  \<open>Decision.create_degrade\<close>.
\<close>

record AsyncGuard =
  identity_plane :: "Session \<Rightarrow> error + PlaneResult"
  intent_plane :: "string \<Rightarrow> error + PlaneResult"
  context_plane :: "string \<Rightarrow> Session \<Rightarrow> error + PlaneResult"
  economics_plane :: "Session \<Rightarrow> error + PlaneResult"
  compliance_plane :: "string \<Rightarrow> error + PlaneResult"
  registry :: PlaneRegistry
  plugin_instances :: "string \<rightharpoonup> BasePlane"
  audit_enabled :: bool
  audit_log :: "Decision list"
  degrade_response :: string

text \<open>
  \<open>register_plugin\<close> registers the class, which may raise, and then stores a fresh
  instance under the class's name.
\<close>

definition register_plugin :: "AsyncGuard \<Rightarrow> plane_class \<Rightarrow> error + AsyncGuard" where
  "register_plugin g c =
     (case register (registry g) c False of
        (Inl e, r) \<Rightarrow> Inl e
      | (Inr c', r) \<Rightarrow>
          Inr (g\<lparr>registry := r,
                 plugin_instances := (plugin_instances g)(name (get_config c) \<mapsto> new_plane c)\<rparr>))"

text \<open>
  \<open>_get_plugins_for_phase\<close>: for each class of the phase, in the registry's order, the
  instance stored under the class's name, created now if there is none; the enabled ones
  are returned.
\<close>

fun plugins_loop ::
  "(string \<rightharpoonup> BasePlane) \<Rightarrow> plane_class list \<Rightarrow> BasePlane list \<times> (string \<rightharpoonup> BasePlane)" where
  "plugins_loop instances [] = ([], instances)"
| "plugins_loop instances (c # cs) =
     (let nm = name (get_config c);
          plane = (case instances nm of None \<Rightarrow> new_plane c | Some p \<Rightarrow> p);
          instances' = (case instances nm of None \<Rightarrow> instances(nm \<mapsto> plane) | Some p \<Rightarrow> instances)
      in case plugins_loop instances' cs of
           (plugins, instances'') \<Rightarrow>
             (if plane_enabled plane then plane # plugins else plugins, instances''))"

definition get_plugins_for_phase :: "AsyncGuard \<Rightarrow> PlanePhase \<Rightarrow> BasePlane list \<times> AsyncGuard" where
  "get_plugins_for_phase g ph =
     (case plugins_loop (plugin_instances g) (get_by_phase (registry g) ph) of
        (plugins, instances) \<Rightarrow> (plugins, g\<lparr>plugin_instances := instances\<rparr>))"

text \<open>
  \<open>_run_plugins\<close>: \<open>asyncio.gather\<close> with \<open>return_exceptions=True\<close> runs every task to
  its end and returns, at the position of each task, its result or the exception it
  raised. Every plugin of the phase sees the \<open>plane_results\<close> as they are when the phase
  starts.
\<close>

definition run_plugins ::
  "AsyncGuard \<Rightarrow> PlanePhase \<Rightarrow> string \<Rightarrow> Session \<Rightarrow> plane_results \<Rightarrow>
   (error + PlaneResult) list \<times> AsyncGuard" where
  "run_plugins g ph prompt session context =
     (case get_plugins_for_phase g ph of
        (plugins, g') \<Rightarrow> (map (\<lambda>plugin. evaluate_async plugin prompt session context) plugins, g'))"

text \<open>
  The loop over the results of a phase: \<open>isinstance(result, PlaneResult)\<close> skips an
  exception. After \<open>PRE_IDENTITY\<close> the loop stops at the first result that did not pass
  and hands it back.
\<close>

fun store_results :: "plane_results \<Rightarrow> (error + PlaneResult) list \<Rightarrow> plane_results" where
  "store_results results [] = results"
| "store_results results (Inl e # rs) = store_results results rs"
| "store_results results (Inr r # rs) = store_results (results(plane_name r \<mapsto> r)) rs"

fun pre_identity_loop ::
  "plane_results \<Rightarrow> (error + PlaneResult) list \<Rightarrow> plane_results \<times> PlaneResult option" where
  "pre_identity_loop results [] = (results, None)"
| "pre_identity_loop results (Inl e # rs) = pre_identity_loop results rs"
| "pre_identity_loop results (Inr r # rs) =
     (if \<not> passed r then (results(plane_name r \<mapsto> r), Some r)
      else pre_identity_loop (results(plane_name r \<mapsto> r)) rs)"

text \<open>
  What one call of \<open>inspect\<close> leaves behind: the decision or the exception, the session
  and the guard after the call, and \<open>calls\<close>, the checks the call ran with what each
  returned, in order. \<open>calls\<close> is not a value of the program: it lets a property speak of
  a check that was run.
\<close>

datatype call = BuiltIn string PlaneResult | PluginCall PlanePhase "error + PlaneResult"

record inspect_run =
  outcome :: "error + Decision"
  calls :: "call list"
  session_after :: Session
  guard_after :: AsyncGuard

text \<open>
  Modelled from the spec: \<open>AuditLogger\<close> is in \<open>pygenguard/audit\<close>, which is not among
  the sources. Its \<open>log\<close> appends the decision to an append-only sink when auditing is
  enabled; a fault of the sink is not modelled.
\<close>

definition log_async :: "AsyncGuard \<Rightarrow> Decision \<Rightarrow> AsyncGuard" where
  "log_async g d = (if audit_enabled g then g\<lparr>audit_log := audit_log g @ [d]\<rparr> else g)"

definition returns :: "AsyncGuard \<Rightarrow> call list \<Rightarrow> Session \<Rightarrow> Decision \<Rightarrow> inspect_run" where
  "returns g cs session d =
     \<lparr>outcome = Inr d, calls = cs, session_after = session, guard_after = log_async g d\<rparr>"

definition raises :: "AsyncGuard \<Rightarrow> call list \<Rightarrow> Session \<Rightarrow> error \<Rightarrow> inspect_run" where
  "raises g cs session e =
     \<lparr>outcome = Inl e, calls = cs, session_after = session, guard_after = g\<rparr>"

text \<open>
  \<open>inspect\<close>, cut at the comments that head its sections, last section first. Each part
  takes the guard, the calls and the \<open>plane_results\<close> as the part before left them.
\<close>

definition inspect_compliance ::
  "AsyncGuard \<Rightarrow> call list \<Rightarrow> plane_results \<Rightarrow> string \<Rightarrow> string \<Rightarrow> Session \<Rightarrow> inspect_run" where
  "inspect_compliance g cs results tid prompt session =
     (case compliance_plane g prompt of
        Inl e \<Rightarrow> raises g cs session e
      | Inr compliance_result \<Rightarrow>
          (let results = results(''compliance'' \<mapsto> compliance_result);
               cs = cs @ [BuiltIn ''compliance'' compliance_result]
           in case run_plugins g POST_COMPLIANCE prompt session results of
                (post_compliance_results, g) \<Rightarrow>
                  returns g (cs @ map (PluginCall POST_COMPLIANCE) post_compliance_results) session
                    (create_allow tid (store_results results post_compliance_results)
                       ''All security planes passed.'')))"

definition inspect_economics ::
  "AsyncGuard \<Rightarrow> call list \<Rightarrow> plane_results \<Rightarrow> string \<Rightarrow> string \<Rightarrow> Session \<Rightarrow> inspect_run" where
  "inspect_economics g cs results tid prompt session =
     (let session = session_increment_tokens (length prompt) session in
      case economics_plane g session of
        Inl e \<Rightarrow> raises g cs session e
      | Inr economics_result \<Rightarrow>
          (let results = results(''economics'' \<mapsto> economics_result);
               cs = cs @ [BuiltIn ''economics'' economics_result]
           in if \<not> passed economics_result
              then returns g cs session
                     (create_degrade (degrade_response g) tid results
                        (''Rate limiting applied: '' @ details economics_result))
              else case run_plugins g POST_ECONOMICS prompt session results of
                     (post_economics_results, g) \<Rightarrow>
                       inspect_compliance g (cs @ map (PluginCall POST_ECONOMICS) post_economics_results)
                         (store_results results post_economics_results) tid prompt session))"

definition inspect_context ::
  "AsyncGuard \<Rightarrow> call list \<Rightarrow> plane_results \<Rightarrow> string \<Rightarrow> string \<Rightarrow> Session \<Rightarrow> inspect_run" where
  "inspect_context g cs results tid prompt session =
     (case context_plane g prompt session of
        Inl e \<Rightarrow> raises g cs session e
      | Inr context_result \<Rightarrow>
          (let results = results(''context'' \<mapsto> context_result);
               cs = cs @ [BuiltIn ''context'' context_result]
           in if \<not> passed context_result
              then returns g cs session
                     (create_block tid results
                        (''Context analysis failed: '' @ details context_result)
                        ''This conversation cannot continue.'')
              else case run_plugins g POST_CONTEXT prompt session results of
                     (post_context_results, g) \<Rightarrow>
                       inspect_economics g (cs @ map (PluginCall POST_CONTEXT) post_context_results)
                         (store_results results post_context_results) tid prompt session))"

definition inspect_intent ::
  "AsyncGuard \<Rightarrow> call list \<Rightarrow> plane_results \<Rightarrow> string \<Rightarrow> string \<Rightarrow> Session \<Rightarrow> inspect_run" where
  "inspect_intent g cs results tid prompt session =
     (case intent_plane g prompt of
        Inl e \<Rightarrow> raises g cs session e
      | Inr intent_result \<Rightarrow>
          (let results = results(''intent'' \<mapsto> intent_result);
               cs = cs @ [BuiltIn ''intent'' intent_result]
           in if \<not> passed intent_result
              then returns g cs session
                     (create_block tid results
                        (''Intent analysis failed: '' @ details intent_result)
                        (''I can'' @ [CHR 0x27] @ ''t help with that request.''))
              else case run_plugins g POST_INTENT prompt session results of
                     (post_intent_results, g) \<Rightarrow>
                       inspect_context g (cs @ map (PluginCall POST_INTENT) post_intent_results)
                         (store_results results post_intent_results) tid prompt session))"

definition inspect_identity ::
  "AsyncGuard \<Rightarrow> call list \<Rightarrow> plane_results \<Rightarrow> string \<Rightarrow> string \<Rightarrow> Session \<Rightarrow> inspect_run" where
  "inspect_identity g cs results tid prompt session =
     (case identity_plane g session of
        Inl e \<Rightarrow> raises g cs session e
      | Inr identity_result \<Rightarrow>
          (let results = results(''identity'' \<mapsto> identity_result);
               cs = cs @ [BuiltIn ''identity'' identity_result]
           in if \<not> passed identity_result
              then returns g cs session
                     (create_block tid results
                        (''Identity check failed: '' @ details identity_result)
                        ''Session verification required.'')
              else case run_plugins g POST_IDENTITY prompt session results of
                     (post_identity_results, g) \<Rightarrow>
                       inspect_intent g (cs @ map (PluginCall POST_IDENTITY) post_identity_results)
                         (store_results results post_identity_results) tid prompt session))"

text \<open>
  \<open>inspect\<close>. The trace id is drawn by \<open>uuid.uuid4()\<close>; it is an argument here. The
  calls list every \<open>PRE_IDENTITY\<close> plugin that ran, also those whose result the loop did
  not reach.
\<close>

definition inspect :: "AsyncGuard \<Rightarrow> string \<Rightarrow> string \<Rightarrow> Session \<Rightarrow> inspect_run" where
  "inspect g tid prompt session =
     (case run_plugins g PRE_IDENTITY prompt session Map.empty of
        (pre_results, g) \<Rightarrow>
          (case pre_identity_loop Map.empty pre_results of
             (results, Some result) \<Rightarrow>
               returns g (map (PluginCall PRE_IDENTITY) pre_results) session
                 (create_block tid results
                    (''Pre-identity plugin failed: '' @ details result)
                    ''Request validation failed.'')
           | (results, None) \<Rightarrow>
               inspect_identity g (map (PluginCall PRE_IDENTITY) pre_results) results tid prompt session))"

text \<open>
  \<open>asyncio.gather\<close> as \<open>inspect_batch\<close> calls it, without \<open>return_exceptions\<close>: the
  results in the order of the tasks when every task returns, and otherwise an exception
  raised by one of them, here the one of the first task in the list that raised.
\<close>

fun gather :: "(error + 'a) list \<Rightarrow> error + 'a list" where
  "gather [] = Inr []"
| "gather (Inl e # rs) = Inl e"
| "gather (Inr x # rs) = (case gather rs of Inl e \<Rightarrow> Inl e | Inr xs \<Rightarrow> Inr (x # xs))"

text \<open>
  The requests of a batch, each with the trace id its \<open>inspect\<close> draws. The tasks share
  the guard only; they are run here one after the other, in the order of the list.
\<close>

fun inspect_each :: "AsyncGuard \<Rightarrow> (string \<times> string \<times> Session) list \<Rightarrow> inspect_run list" where
  "inspect_each g [] = []"
| "inspect_each g ((tid, prompt, session) # requests) =
     (let run = inspect g tid prompt session in run # inspect_each (guard_after run) requests)"

definition inspect_batch ::
  "AsyncGuard \<Rightarrow> (string \<times> string \<times> Session) list \<Rightarrow> error + Decision list" where
  "inspect_batch g requests = gather (map outcome (inspect_each g requests))"

text \<open>What a run shows of its decision; \<open>None\<close> when the call raised.\<close>

definition action_of :: "inspect_run \<Rightarrow> Action option" where
  "action_of run = (case outcome run of Inl e \<Rightarrow> None | Inr d \<Rightarrow> Some (action d))"

definition allowed_of :: "inspect_run \<Rightarrow> bool option" where
  "allowed_of run = (case outcome run of Inl e \<Rightarrow> None | Inr d \<Rightarrow> Some (allowed d))"

definition result_for :: "inspect_run \<Rightarrow> string \<Rightarrow> PlaneResult option" where
  "result_for run nm = (case outcome run of Inl e \<Rightarrow> None | Inr d \<Rightarrow> plane_results d nm)"


text \<open>
  A second description of the decision, to compare \<open>inspect\<close> with: what the results
  that the checks returned determine by themselves. \<open>returned_results\<close> keeps, of the
  calls, the results returned, each with the check it came from, and drops every
  exception. \<open>replay\<close> stores such results in order, a built-in one under the name of its
  plane and a plugin's under the name it carries, and stops after a \<open>PRE_IDENTITY\<close>
  result that did not pass. \<open>verdict\<close> is \<open>BLOCK\<close> when a \<open>PRE_IDENTITY\<close> plugin or the
  identity, intent or context plane returned a result that did not pass, \<open>DEGRADE\<close>
  when the economics plane did, and \<open>ALLOW\<close> otherwise.
\<close>

datatype source = Plane string | Plugin PlanePhase






section \<open>Concrete inputs\<close>

text \<open>Results and checks used by the examples below.\<close>

definition result_of :: "string \<Rightarrow> bool \<Rightarrow> PlaneResult" where
  "result_of nm ok =
     \<lparr>plane_name = nm, passed = ok, risk_score = 0, details = ''ok'', latency_ms = 0\<rparr>"

definition plugin_class :: "string \<Rightarrow> PlanePhase \<Rightarrow> int \<Rightarrow> string \<Rightarrow> check \<Rightarrow> plane_class" where
  "plugin_class nm ph prio fa chk =
     \<lparr>get_config = \<lparr>name = nm, phase = ph, enabled = True, priority = prio, fail_action = fa\<rparr>,
      evaluate = chk, evaluate_async_override = None\<rparr>"

text \<open>
  \<open>PlaneA\<close> and \<open>PlaneB\<close> of \<open>test_registry_prevents_duplicate\<close>: both are named
  \<open>duplicate\<close>. They are told apart here by their priority.
\<close>

definition PlaneA :: plane_class where
  "PlaneA = plugin_class ''duplicate'' POST_INTENT 100 ''block'' (\<lambda>p s c. Inr (result_of ''dup'' True))"

definition PlaneB :: plane_class where
  "PlaneB = plugin_class ''duplicate'' POST_INTENT 7 ''block'' (\<lambda>p s c. Inr (result_of ''dup'' True))"

definition registry_with_A :: PlaneRegistry where
  "registry_with_A = snd (register (new_registry []) PlaneA False)"

text \<open>
  A session record, and the same record with a tuple, and with a dictionary keyed by an
  int, in its metadata.
\<close>

definition alice :: SessionData where
  "alice = \<lparr>user_id = PStr ''alice'', fingerprint = PStr ''fp123'', trust_score = PInt 90,
             last_seen = PFloat 1000, tokens_used = PInt 0, session_start = PFloat 990,
             history_summary = PStr [], metadata = PDict [(KStr ''plan'', PStr ''pro'')]\<rparr>"

definition alice_with_tuple :: SessionData where
  "alice_with_tuple = alice\<lparr>metadata := PDict [(KStr ''pair'', PTuple [PInt 1, PInt 2])]\<rparr>"

definition alice_with_int_key :: SessionData where
  "alice_with_int_key = alice\<lparr>metadata := PDict [(KStr ''seats'', PDict [(KInt 1, PStr ''x'')])]\<rparr>"

text \<open>
  \<open>InMemorySessionStore(default_ttl=3600)\<close>, \<open>InMemorySessionStore()\<close> and
  \<open>RedisSessionStore()\<close> with its defaults, all empty.
\<close>

definition memory_3600 :: InMemorySessionStore where
  "memory_3600 = \<lparr>memory_store = Map.empty, memory_default_ttl = Some 3600\<rparr>"

definition memory_plain :: InMemorySessionStore where
  "memory_plain = \<lparr>memory_store = Map.empty, memory_default_ttl = None\<rparr>"

definition redis_plain :: RedisSessionStore where
  "redis_plain = \<lparr>redis_db = Map.empty, key_prefix = ''pygenguard:session:'',
                   redis_default_ttl = 86400, reachable = True, lua_tonumber = (\<lambda>s. None)\<rparr>"

text \<open>Each store after \<open>set("alice", alice, ttl=60)\<close> at time 1000.\<close>

definition memory_alice_60 :: InMemorySessionStore where
  "memory_alice_60 = snd (memory_set 1000 memory_plain ''alice'' alice (Some 60))"

definition redis_alice_60 :: RedisSessionStore where
  "redis_alice_60 = snd (redis_set redis_plain ''alice'' alice (Some 60))"

text \<open>
  Guards whose built-in planes answer at once: the identity, economics and compliance
  planes pass or fail as the three flags say, the intent and context planes pass, and
  the intent plane raises on the prompt \<open>crash\<close>.
\<close>

definition hello_session :: Session where
  "hello_session = \<lparr>session_user_id = ''u1'', session_fingerprint = ''fp'',
                     session_trust_score = 100, session_tokens_used = 0, session_history = []\<rparr>"

definition registry_of :: "plane_class list \<Rightarrow> PlaneRegistry" where
  "registry_of cs = \<lparr>local_registry = map (\<lambda>c. (name (get_config c), c)) cs, global_registry = []\<rparr>"

definition guard_with :: "bool \<Rightarrow> bool \<Rightarrow> bool \<Rightarrow> PlaneRegistry \<Rightarrow> AsyncGuard" where
  "guard_with identity_ok economics_ok compliance_ok reg =
     \<lparr>identity_plane = (\<lambda>s. Inr (result_of ''identity'' identity_ok)),
      intent_plane = (\<lambda>p. if p = ''crash'' then Inl (Raised ''intent plane crashed'')
                           else Inr (result_of ''intent'' True)),
      context_plane = (\<lambda>p s. Inr (result_of ''context'' True)),
      economics_plane = (\<lambda>s. Inr (result_of ''economics'' economics_ok)),
      compliance_plane = (\<lambda>p. Inr (result_of ''compliance'' compliance_ok)),
      registry = reg, plugin_instances = Map.empty, audit_enabled = True, audit_log = [],
      degrade_response = ''Please slow down.''\<rparr>"

text \<open>
  Plugins: one that passes, one that fails, one that raises, and one that answers under
  the name of the compliance plane.
\<close>

definition passing_plugin :: "string \<Rightarrow> PlanePhase \<Rightarrow> plane_class" where
  "passing_plugin nm ph = plugin_class nm ph 100 ''block'' (\<lambda>p s c. Inr (result_of nm True))"

definition failing_plugin :: "string \<Rightarrow> PlanePhase \<Rightarrow> string \<Rightarrow> plane_class" where
  "failing_plugin nm ph fa = plugin_class nm ph 100 fa (\<lambda>p s c. Inr (result_of nm False))"

definition raising_plugin :: "string \<Rightarrow> PlanePhase \<Rightarrow> plane_class" where
  "raising_plugin nm ph = plugin_class nm ph 100 ''block'' (\<lambda>p s c. Inl (Raised ''boom''))"

definition shadow_plugin :: plane_class where
  "shadow_plugin =
     plugin_class ''shadow'' POST_COMPLIANCE 100 ''log'' (\<lambda>p s c. Inr (result_of ''compliance'' True))"





definition block_plugin_fails :: inspect_run where
  "block_plugin_fails =
     inspect (guard_with True True True (registry_of [failing_plugin ''strict'' POST_INTENT ''block'']))
       ''t1'' ''Hello'' hello_session"

definition degrade_plugin_fails :: inspect_run where
  "degrade_plugin_fails =
     inspect (guard_with True True True (registry_of [failing_plugin ''soft'' POST_CONTEXT ''degrade'']))
       ''t1'' ''Hello'' hello_session"

definition log_plugin_fails :: inspect_run where
  "log_plugin_fails =
     inspect (guard_with True True True (registry_of [failing_plugin ''note'' PRE_IDENTITY ''log'']))
       ''t1'' ''Hello'' hello_session"


definition plain_guard :: AsyncGuard where
  "plain_guard = guard_with True True True (registry_of [])"


definition batch_of_three :: "(string \<times> string \<times> Session) list" where
  "batch_of_three =
     [(''t1'', ''Hello'', hello_session), (''t2'', ''crash'', hello_session), (''t3'', ''Hi'', hello_session)]"

section \<open>Properties of the registry\<close>

lemma map_of_update_same: "map_of (AList.update k v al) k = Some v"
  by (simp add: update_conv')

text \<open>
  C9. Registering a class whose name the registry already holds, without \<open>override\<close>,
  raises the duplicate-name \<open>ValueError\<close> and leaves the registry as it was. With
  \<open>override=True\<close> the call succeeds and \<open>get\<close> of that name returns the new class.
\<close>

theorem register_duplicate_or_override:
  "(map_of (local_registry r) (name (get_config c)) \<noteq> None \<longrightarrow>
      register r c False = (Inl (ValueError (duplicate_message (name (get_config c)))), r))
   \<and> fst (register r c True) = Inr c
   \<and> get (snd (register r c True)) (name (get_config c)) = Some c"
  by (simp add: register_def get_def Let_def map_of_update_same)

theorem register_duplicate_or_override_witness:
  "map_of (local_registry registry_with_A) (name (get_config PlaneB)) \<noteq> None
   \<and> register registry_with_A PlaneB False
       = (Inl (ValueError (duplicate_message ''duplicate'')), registry_with_A)
   \<and> get registry_with_A ''duplicate'' = Some PlaneA
   \<and> get (snd (register registry_with_A PlaneB True)) ''duplicate'' = Some PlaneB
   \<and> priority (get_config PlaneA) \<noteq> priority (get_config PlaneB)"
  using register_duplicate_or_override [of registry_with_A PlaneB]
  by (simp add: registry_with_A_def new_registry_def register_def get_def Let_def
      PlaneA_def PlaneB_def plugin_class_def)

section \<open>Properties of the serialised record\<close>

text \<open>A dictionary built from pairs with distinct keys is the list of those pairs.\<close>

lemma update_fresh: "k \<notin> fst ` set al \<Longrightarrow> AList.update k v al = al @ [(k, v)]"
  by (induction al) auto

lemma foldl_update_distinct:
  "distinct (map fst (acc @ kvs)) \<Longrightarrow>
   foldl (\<lambda>d (k, v). AList.update k v d) acc kvs = acc @ kvs"
proof (induction kvs arbitrary: acc)
  case Nil
  then show ?case by simp
next
  case (Cons kv kvs)
  obtain k v where kv: "kv = (k, v)" by (cases kv)
  from Cons.prems kv have fresh: "k \<notin> fst ` set acc" by auto
  from Cons.prems kv have d: "distinct (map fst ((acc @ [(k, v)]) @ kvs))" by auto
  show ?case using Cons.IH [OF d] by (simp add: kv update_fresh [OF fresh])
qed

lemma dict_of_pairs_distinct: "distinct (map fst kvs) \<Longrightarrow> dict_of_pairs kvs = kvs"
  using foldl_update_distinct [of "[]" kvs] by (simp add: dict_of_pairs_def)

lemma keys_dict_of_pairs_aux:
  "fst ` set (foldl (\<lambda>d (k, v). AList.update k v d) acc kvs) = fst ` set acc \<union> fst ` set kvs"
proof (induction kvs arbitrary: acc)
  case Nil
  then show ?case by simp
next
  case (Cons kv kvs)
  show ?case
    by (cases kv) (simp add: Cons.IH dom_update Un_assoc)
qed

lemma keys_dict_of_pairs: "fst ` set (dict_of_pairs kvs) = fst ` set kvs"
  by (simp add: dict_of_pairs_def keys_dict_of_pairs_aux)

text \<open>\<open>from_dict\<close> reads back what \<open>to_dict\<close> wrote, and rejects a key that is no field.\<close>

lemma from_dict_to_dict: "from_dict now (to_dict d) = Inr d"
  by (simp add: from_dict_def to_dict_def field_names_def field_or_def)

lemma from_dict_unknown_key:
  "k \<in> fst ` set data \<Longrightarrow> k \<notin> set field_names \<Longrightarrow>
   from_dict now data = Inl (TypeError ''__init__() got an unexpected keyword argument'')"
  by (auto simp: from_dict_def list_all_iff)

text \<open>Building a dictionary commutes with renaming its keys one to one.\<close>

lemma update_map_key:
  "inj g \<Longrightarrow> AList.update (g k) v (map (\<lambda>(k, v). (g k, v)) al) = map (\<lambda>(k, v). (g k, v)) (AList.update k v al)"
  by (induction al) (auto simp: inj_eq)

lemma foldl_update_map_key:
  "inj g \<Longrightarrow>
   foldl (\<lambda>d (k, v). AList.update k v d) (map (\<lambda>(k, v). (g k, v)) acc) (map (\<lambda>(k, v). (g k, v)) kvs)
     = map (\<lambda>(k, v). (g k, v)) (foldl (\<lambda>d (k, v). AList.update k v d) acc kvs)"
proof (induction kvs arbitrary: acc)
  case Nil
  then show ?case by simp
next
  case (Cons kv kvs)
  obtain k v where kv: "kv = (k, v)" by (cases kv)
  show ?case
    using Cons.IH [OF Cons.prems, of "AList.update k v acc"]
    by (simp add: kv update_map_key [OF Cons.prems])
qed

lemma dict_of_pairs_map_key:
  "inj g \<Longrightarrow> dict_of_pairs (map (\<lambda>(k, v). (g k, v)) kvs) = map (\<lambda>(k, v). (g k, v)) (dict_of_pairs kvs)"
  using foldl_update_map_key [of g "[]" kvs] by (simp add: dict_of_pairs_def)

text \<open>The members of a JSON object are read as a dictionary with string keys.\<close>

lemma keyword_args_str: "keyword_args (map (\<lambda>(k, v). (KStr k, v)) data) = Some data"
  by (induction data) auto

lemma json_loads_object:
  "json_loads (JObj members) = dict_value (dict_of_pairs (map (\<lambda>(k, v). (k, json_loads v)) members))"
proof -
  have eq: "map (\<lambda>(k, v). (KStr k, json_loads v)) members
        = map (\<lambda>(k, v). (KStr k, v)) (map (\<lambda>(k, v). (k, json_loads v)) members)"
    by (induction members) auto
  have inj: "inj KStr" by (simp add: inj_def)
  show ?thesis
    by (simp only: json_loads.simps dict_value_def eq dict_of_pairs_map_key [OF inj])
qed

text \<open>
  \<open>json.loads\<close> gives back what \<open>json.dumps\<close> was given when the value holds no
  tuple and every dictionary in it has string keys.
\<close>

lemma json_roundtrip: "py_valid v \<Longrightarrow> json_exact v \<Longrightarrow> json_loads (json_dumps v) = v"
proof (induction v)
  case (PList xs)
  then show ?case by (auto simp: list_all_iff intro: map_idI)
next
  case (PDict kvs)
  have same: "map (\<lambda>(k, v). (KStr (key_string k), json_loads (json_dumps v))) kvs = kvs"
  proof (intro map_idI)
    fix x assume x: "x \<in> set kvs"
    obtain k w where kw: "x = (k, w)" by (cases x)
    from PDict.prems x kw have "py_valid w" "json_exact w" "is_str_key k"
      by (auto simp: list_all_iff)
    with PDict.IH [of x w] x kw have "json_loads (json_dumps w) = w" by simp
    moreover from \<open>is_str_key k\<close> have "KStr (key_string k) = k" by (cases k) simp_all
    ultimately show "(case x of (k, v) \<Rightarrow> (KStr (key_string k), json_loads (json_dumps v))) = x"
      by (simp add: kw)
  qed
  have "map (\<lambda>(k, v). (KStr k, json_loads v)) (map (\<lambda>(k, v). (key_string k, json_dumps v)) kvs) = kvs"
    using same by (simp add: case_prod_unfold o_def)
  then show ?case using PDict.prems by (simp add: dict_of_pairs_distinct)
qed auto

lemma from_json_to_json:
  "py_valid (dict_value (to_dict d)) \<Longrightarrow> json_exact (dict_value (to_dict d)) \<Longrightarrow>
   from_json now (to_json d) = Inr d"
  by (simp add: from_json_def to_json_def json_roundtrip)
    (simp add: dict_value_def keyword_args_str from_dict_to_dict)

lemma from_json_unknown_key:
  assumes "k \<in> fst ` set members" and "k \<notin> set field_names"
  shows "from_json now (JObj members) = Inl (TypeError ''__init__() got an unexpected keyword argument'')"
proof -
  let ?data = "dict_of_pairs (map (\<lambda>(k, v). (k, json_loads v)) members)"
  have "fst ` set ?data = fst ` set (map (\<lambda>(k, v). (k, json_loads v)) members)"
    by (simp only: keys_dict_of_pairs)
  also have "\<dots> = fst ` set members" by (force simp: image_iff)
  finally have "k \<in> fst ` set ?data" using assms(1) by simp
  then have "from_dict now ?data = Inl (TypeError ''__init__() got an unexpected keyword argument'')"
    using assms(2) by (rule from_dict_unknown_key)
  then show ?thesis
    by (simp add: from_json_def json_loads_object del: json_loads.simps)
      (simp add: dict_value_def keyword_args_str)
qed

text \<open>
  C7, as the code has it, for a \<open>SessionData\<close> whose fields hold \<open>None\<close>, bools, ints,
  finite floats, strings, and lists, tuples and dictionaries of these. \<open>to_dict\<close>
  followed by \<open>from_dict\<close> gives back every field. \<open>to_json\<close> followed by
  \<open>from_json\<close> gives back every field when no field holds a tuple or a dictionary with
  a key that is not a string, at any depth: JSON has arrays only, and an array is read
  as a list; a member name is a string, and an int key is written as its numeral. A
  record with a key that is not a field is not read: \<open>from_dict\<close> and \<open>from_json\<close>
  raise \<open>TypeError\<close>, since the generated constructor takes no unknown keyword.
\<close>

theorem session_data_round_trip:
  "from_dict now (to_dict d) = Inr d
   \<and> (py_valid (dict_value (to_dict d)) \<and> json_exact (dict_value (to_dict d)) \<longrightarrow>
        from_json now (to_json d) = Inr d)
   \<and> (k \<in> fst ` set data \<and> k \<notin> set field_names \<longrightarrow>
        from_dict now data = Inl (TypeError ''__init__() got an unexpected keyword argument''))
   \<and> (k \<in> fst ` set members \<and> k \<notin> set field_names \<longrightarrow>
        from_json now (JObj members) = Inl (TypeError ''__init__() got an unexpected keyword argument''))"
  using from_dict_to_dict from_json_to_json from_dict_unknown_key from_json_unknown_key
  by blast

text \<open>
  C7 as stated fails three times: the record of \<open>alice\<close> with one more member,
  \<open>tenant\<close>, makes \<open>from_dict\<close> and \<open>from_json\<close> raise; a tuple in the metadata
  comes back from JSON as a list; and a dictionary keyed by the int \<open>1\<close> comes back keyed
  by the string \<open>1\<close>.
\<close>

theorem session_data_round_trip_counterexample:
  "from_dict 0 (to_dict alice @ [(''tenant'', PStr ''acme'')])
     = Inl (TypeError ''__init__() got an unexpected keyword argument'')
   \<and> from_json 0 (JObj (object_members (to_json alice) @ [(''tenant'', JStr ''acme'')]))
     = Inl (TypeError ''__init__() got an unexpected keyword argument'')
   \<and> from_json 0 (to_json alice_with_tuple)
     = Inr (alice\<lparr>metadata := PDict [(KStr ''pair'', PList [PInt 1, PInt 2])]\<rparr>)
   \<and> from_json 0 (to_json alice_with_tuple) \<noteq> Inr alice_with_tuple
   \<and> from_json 0 (to_json alice_with_int_key)
     = Inr (alice\<lparr>metadata := PDict [(KStr ''seats'', PDict [(KStr ''1'', PStr ''x'')])]\<rparr>)
   \<and> from_json 0 (to_json alice_with_int_key) \<noteq> Inr alice_with_int_key"
  by (simp add: from_dict_def from_json_def to_dict_def to_json_def dict_value_def alice_def
      alice_with_tuple_def alice_with_int_key_def field_names_def field_or_def dict_of_pairs_def
      str_of_int_def digit_def)

text \<open>The hypotheses of C7 hold for \<open>alice\<close> and for her record with the extra member.\<close>

theorem session_data_round_trip_witness:
  "py_valid (dict_value (to_dict alice)) \<and> json_exact (dict_value (to_dict alice))
   \<and> from_dict 0 (to_dict alice) = Inr alice
   \<and> from_json 0 (to_json alice) = Inr alice
   \<and> ''tenant'' \<in> fst ` set (to_dict alice @ [(''tenant'', PStr ''acme'')])
   \<and> ''tenant'' \<notin> set field_names
   \<and> from_dict 0 (to_dict alice @ [(''tenant'', PStr ''acme'')])
       = Inl (TypeError ''__init__() got an unexpected keyword argument'')
   \<and> ''tenant'' \<in> fst ` set (object_members (to_json alice) @ [(''tenant'', JStr ''acme'')])
   \<and> from_json 0 (JObj (object_members (to_json alice) @ [(''tenant'', JStr ''acme'')]))
       = Inl (TypeError ''__init__() got an unexpected keyword argument'')"
proof -
  have v: "py_valid (dict_value (to_dict alice)) \<and> json_exact (dict_value (to_dict alice))"
    by (simp add: to_dict_def dict_value_def alice_def)
  have k1: "''tenant'' \<in> fst ` set (to_dict alice @ [(''tenant'', PStr ''acme'')])
            \<and> ''tenant'' \<notin> set field_names"
    by (simp add: field_names_def)
  have k2: "''tenant'' \<in> fst ` set (object_members (to_json alice) @ [(''tenant'', JStr ''acme'')])
            \<and> ''tenant'' \<notin> set field_names"
    by (simp add: field_names_def)
  show ?thesis
    using v k1 k2
      session_data_round_trip [of 0 alice "''tenant''" "to_dict alice @ [(''tenant'', PStr ''acme'')]"
        "object_members (to_json alice) @ [(''tenant'', JStr ''acme'')]"]
    by blast
qed

section \<open>Properties of the session stores\<close>

text \<open>
  C8, as the code has it. \<open>set\<close> with \<open>ttl=None\<close> falls back on the store's
  \<open>default_ttl\<close>: the entry has no expiry when that is \<open>None\<close> or \<open>0\<close>, and
  otherwise expires \<open>default_ttl\<close> seconds from now. \<open>set\<close> with a positive \<open>ttl\<close>
  makes the entry expire \<open>ttl\<close> seconds from now. In each case the entry written
  replaces the one the key had, expiry included. For Redis this is while the server can
  be reached, and the expiry is the remaining time to live.
\<close>

theorem set_expiry:
  "memory_set now m uid d None =
     (True, m\<lparr>memory_store := (memory_store m)
        (uid \<mapsto> (d, case memory_default_ttl m of
                        None \<Rightarrow> None
                      | Some t \<Rightarrow> if t \<noteq> 0 then Some (now + of_int t) else None))\<rparr>)
   \<and> (0 < t \<longrightarrow>
        memory_set now m uid d (Some t) =
          (True, m\<lparr>memory_store := (memory_store m)(uid \<mapsto> (d, Some (now + of_int t)))\<rparr>))
   \<and> (reachable r \<and> 0 < t \<longrightarrow>
        redis_set r uid d (Some t) =
          (True, r\<lparr>redis_db := (redis_db r)
             (redis_key r uid \<mapsto> (object_members (to_json d), Some (nat t)))\<rparr>))
   \<and> (reachable r \<and> 0 < redis_default_ttl r \<longrightarrow>
        redis_set r uid d None =
          (True, r\<lparr>redis_db := (redis_db r)
             (redis_key r uid \<mapsto> (object_members (to_json d), Some (nat (redis_default_ttl r))))\<rparr>))
   \<and> (reachable r \<and> redis_default_ttl r = 0 \<longrightarrow>
        redis_set r uid d None =
          (True, r\<lparr>redis_db := (redis_db r)(redis_key r uid \<mapsto> (object_members (to_json d), None))\<rparr>))"
  by (simp add: memory_set_def redis_set_def Let_def split: option.splits)

text \<open>
  C8 as stated fails: on \<open>InMemorySessionStore(default_ttl=3600)\<close> and on a
  \<open>RedisSessionStore\<close> with its default of 86400 seconds, \<open>set\<close> with \<open>ttl=None\<close>
  stores an entry that expires.
\<close>

theorem set_expiry_counterexample:
  "memory_store (snd (memory_set 1000 memory_3600 ''alice'' alice None)) ''alice''
     = Some (alice, Some 4600)
   \<and> redis_db (snd (redis_set redis_plain ''alice'' alice None)) (redis_key redis_plain ''alice'')
     = Some (object_members (to_json alice), Some 86400)"
  by (simp add: memory_set_def memory_3600_def redis_set_def redis_plain_def redis_key_def Let_def)

text \<open>
  C8 on the two stores that hold \<open>alice\<close> with 60 seconds to live: a later \<open>set\<close>
  with \<open>ttl=30\<close> or \<open>ttl=None\<close> replaces that expiry.
\<close>

theorem set_expiry_witness:
  "reachable redis_alice_60 \<and> (0::int) < 30 \<and> 0 < redis_default_ttl redis_alice_60
   \<and> memory_store memory_alice_60 ''alice'' = Some (alice, Some 1060)
   \<and> memory_store (snd (memory_set 2000 memory_alice_60 ''alice'' alice (Some 30))) ''alice''
       = Some (alice, Some 2030)
   \<and> memory_store (snd (memory_set 2000 memory_alice_60 ''alice'' alice None)) ''alice''
       = Some (alice, None)
   \<and> redis_db redis_alice_60 (redis_key redis_alice_60 ''alice'')
       = Some (object_members (to_json alice), Some 60)
   \<and> redis_db (snd (redis_set redis_alice_60 ''alice'' alice (Some 30))) (redis_key redis_alice_60 ''alice'')
       = Some (object_members (to_json alice), Some 30)
   \<and> redis_db (snd (redis_set redis_alice_60 ''alice'' alice None)) (redis_key redis_alice_60 ''alice'')
       = Some (object_members (to_json alice), Some 86400)"
proof -
  have c: "reachable redis_alice_60 \<and> redis_default_ttl redis_alice_60 = 86400"
    by (simp add: redis_alice_60_def redis_set_def redis_plain_def Let_def)
  have m: "memory_default_ttl memory_alice_60 = None"
       "memory_store memory_alice_60 ''alice'' = Some (alice, Some 1060)"
    by (simp_all add: memory_alice_60_def memory_set_def memory_plain_def Let_def)
  have r: "redis_db redis_alice_60 (redis_key redis_alice_60 ''alice'')
           = Some (object_members (to_json alice), Some 60)"
    by (simp add: redis_alice_60_def redis_set_def redis_plain_def redis_key_def Let_def)
  show ?thesis
    using c m r set_expiry [of 2000 memory_alice_60 "''alice''" alice 30 redis_alice_60]
    by simp
qed

text \<open>
  \<open>update_trust\<close> and \<open>increment_tokens\<close> on a key the store does not hold return
  failure and change nothing, in both stores.
\<close>

lemma memory_update_absent:
  "memory_store m uid = None \<Longrightarrow>
   memory_update_trust t_get t_seen t_set m uid score = (False, m)
   \<and> memory_increment_tokens t_get t_seen t_set m uid count = (Inr False, m)"
  by (simp add: memory_update_trust_def memory_increment_tokens_def base_update_trust_def
      base_increment_tokens_def memory_get_def)

lemma redis_update_absent:
  "reachable r \<Longrightarrow> redis_db r (redis_key r uid) = None \<Longrightarrow>
   redis_update_trust now t_get t_seen r uid score = (False, r)
   \<and> redis_increment_tokens now t_get t_seen r uid count = (Inr False, r)"
  by (simp add: redis_update_trust_def redis_increment_tokens_def update_trust_script_def
      increment_tokens_script_def)

text \<open>The Redis script writes the record back with the time to live it found.\<close>

lemma redis_update_trust_keeps_ttl:
  "reachable r \<Longrightarrow> redis_db r (redis_key r uid) = Some (data, Some n) \<Longrightarrow> 0 < n \<Longrightarrow>
   map_option snd (redis_db (snd (redis_update_trust now t_get t_seen r uid score)) (redis_key r uid))
     = Some (Some n)"
  by (simp add: redis_update_trust_def update_trust_script_def lua_write_def ttl_reply_def Let_def)

text \<open>
  The in-memory store writes the record back through \<open>set\<close> with \<open>ttl=None\<close>: the
  expiry after the call comes from \<open>default_ttl\<close> and the time of the call, whatever
  expiry the key had.
\<close>

lemma memory_update_trust_live:
  "memory_store m uid = Some (d, expiry) \<Longrightarrow> \<not> is_expired t_get expiry \<Longrightarrow>
   memory_update_trust t_get t_seen t_set m uid score =
     (True, m\<lparr>memory_store := (memory_store m)
        (uid \<mapsto> (d\<lparr>trust_score := PInt score, last_seen := PFloat t_seen\<rparr>,
                  case memory_default_ttl m of
                    None \<Rightarrow> None
                  | Some t \<Rightarrow> if t \<noteq> 0 then Some (t_set + of_int t) else None))\<rparr>)"
  by (simp add: memory_update_trust_def base_update_trust_def memory_get_def memory_set_def Let_def
      split: option.splits)

text \<open>
  C3 at \<open>InMemorySessionStore()\<close> holding \<open>alice\<close> until time 1060: one second
  after the \<open>set\<close>, \<open>update_trust\<close> and \<open>increment_tokens\<close> each succeed and leave
  the entry with no expiry at all. The Redis store, given the same calls, keeps the 60
  seconds.
\<close>

theorem memory_update_discards_expiry:
  "memory_store memory_alice_60 ''alice'' = Some (alice, Some 1060)
   \<and> memory_update_trust 1001 1001 1001 memory_alice_60 ''alice'' 75
       = (True, memory_alice_60\<lparr>memory_store := (memory_store memory_alice_60)
            (''alice'' \<mapsto> (alice\<lparr>trust_score := PInt 75, last_seen := PFloat 1001\<rparr>, None))\<rparr>)
   \<and> memory_increment_tokens 1001 1001 1001 memory_alice_60 ''alice'' 10
       = (Inr True, memory_alice_60\<lparr>memory_store := (memory_store memory_alice_60)
            (''alice'' \<mapsto> (alice\<lparr>tokens_used := PInt 10, last_seen := PFloat 1001\<rparr>, None))\<rparr>)
   \<and> map_option snd (redis_db redis_alice_60 (redis_key redis_alice_60 ''alice'')) = Some (Some 60)
   \<and> map_option snd (redis_db (snd (redis_update_trust 1001 1001 1001 redis_alice_60 ''alice'' 75))
        (redis_key redis_alice_60 ''alice'')) = Some (Some 60)"
proof -
  have m: "memory_default_ttl memory_alice_60 = None"
       "memory_store memory_alice_60 ''alice'' = Some (alice, Some 1060)"
    by (simp_all add: memory_alice_60_def memory_set_def memory_plain_def Let_def)
  have t: "tokens_used alice = PInt 0" by (simp add: alice_def)
  have r: "reachable redis_alice_60"
    "redis_db redis_alice_60 (redis_key redis_alice_60 ''alice'')
       = Some (object_members (to_json alice), Some 60)"
    by (simp_all add: redis_alice_60_def redis_set_def redis_plain_def redis_key_def Let_def)
  show ?thesis
    using m t r
    by (simp add: memory_update_trust_def memory_increment_tokens_def base_update_trust_def
        base_increment_tokens_def memory_get_def memory_set_def is_expired_def Let_def
        redis_update_trust_def update_trust_script_def lua_write_def ttl_reply_def)
qed




section \<open>Properties of the pipeline\<close>

text \<open>The definitions unfolded to run the pipeline on an input.\<close>

lemmas inspect_defs = inspect_def inspect_identity_def inspect_intent_def inspect_context_def
  inspect_economics_def inspect_compliance_def returns_def raises_def

lemmas example_defs = guard_with_def registry_of_def hello_session_def result_of_def
  plugin_class_def passing_plugin_def failing_plugin_def raising_plugin_def shadow_plugin_def

lemmas plugin_defs = run_plugins_def get_plugins_for_phase_def get_by_phase_def get_all_def
  new_plane_def plane_enabled_def evaluate_async_def

lemmas decision_defs = create_block_def create_degrade_def create_allow_def action_of_def
  allowed_of_def result_for_def log_async_def session_increment_tokens_def



text \<open>
  The economics check is run only after the identity, intent and context checks passed,
  and the compliance check only after the economics check passed as well.
\<close>

lemma economics_call_follows_passes:
  "BuiltIn ''economics'' r \<in> set (calls (inspect g tid prompt session)) \<Longrightarrow>
   \<exists>ri rn rc. BuiltIn ''identity'' ri \<in> set (calls (inspect g tid prompt session)) \<and> passed ri
     \<and> BuiltIn ''intent'' rn \<in> set (calls (inspect g tid prompt session)) \<and> passed rn
     \<and> BuiltIn ''context'' rc \<in> set (calls (inspect g tid prompt session)) \<and> passed rc"
  by (auto simp: inspect_defs Let_def split: prod.splits sum.splits option.splits if_splits)

lemma compliance_call_follows_passes:
  "BuiltIn ''compliance'' r \<in> set (calls (inspect g tid prompt session)) \<Longrightarrow>
   \<exists>ri rn rc re. BuiltIn ''identity'' ri \<in> set (calls (inspect g tid prompt session)) \<and> passed ri
     \<and> BuiltIn ''intent'' rn \<in> set (calls (inspect g tid prompt session)) \<and> passed rn
     \<and> BuiltIn ''context'' rc \<in> set (calls (inspect g tid prompt session)) \<and> passed rc
     \<and> BuiltIn ''economics'' re \<in> set (calls (inspect g tid prompt session)) \<and> passed re"
  by (auto simp: inspect_defs Let_def split: prod.splits sum.splits option.splits if_splits)






lemma run_plugins_results:
  "fst (run_plugins g ph prompt session context) =
     map (\<lambda>plugin. evaluate_async plugin prompt session context) (fst (get_plugins_for_phase g ph))"
  by (simp add: run_plugins_def split: prod.splits)


















text \<open>
  C2 on three guards, each with one plugin whose check returns \<open>passed=False\<close> and all
  built-in planes passing. A \<open>POST_INTENT\<close> plugin with \<open>fail_action="block"\<close> and a
  \<open>POST_CONTEXT\<close> plugin with \<open>fail_action="degrade"\<close> are recorded and the decision
  is \<open>ALLOW\<close>; a \<open>PRE_IDENTITY\<close> plugin with \<open>fail_action="log"\<close> gives \<open>BLOCK\<close>
  and no built-in plane runs.
\<close>

theorem fail_action_is_not_consulted:
  "action_of block_plugin_fails = Some ALLOW
   \<and> result_for block_plugin_fails ''strict'' = Some (result_of ''strict'' False)
   \<and> action_of degrade_plugin_fails = Some ALLOW
   \<and> result_for degrade_plugin_fails ''soft'' = Some (result_of ''soft'' False)
   \<and> action_of log_plugin_fails = Some BLOCK
   \<and> calls log_plugin_fails = [PluginCall PRE_IDENTITY (Inr (result_of ''note'' False))]"
  by (simp add: block_plugin_fails_def degrade_plugin_fails_def log_plugin_fails_def
      inspect_defs example_defs plugin_defs decision_defs Let_def)

text \<open>
  When every request of a batch returns, \<open>inspect_batch\<close> returns one decision for
  each, in the order of the requests.
\<close>

lemma gather_returned: "gather rs = Inr xs \<Longrightarrow> rs = map Inr xs"
proof (induction rs arbitrary: xs)
  case Nil
  then show ?case by simp
next
  case (Cons r rs)
  then show ?case by (cases r) (auto split: sum.splits)
qed

lemma gather_all_returned: "gather (map Inr xs) = Inr xs"
  by (induction xs) simp_all

lemma length_inspect_each: "length (inspect_each g requests) = length requests"
  by (induction g requests rule: inspect_each.induct) (simp_all add: Let_def)

lemma inspect_batch_returned:
  "inspect_batch g requests = Inr ds \<Longrightarrow>
   length ds = length requests \<and> map outcome (inspect_each g requests) = map Inr ds"
proof -
  assume "inspect_batch g requests = Inr ds"
  then have m: "map outcome (inspect_each g requests) = map Inr ds"
    by (simp add: inspect_batch_def gather_returned)
  then have "length (map outcome (inspect_each g requests)) = length (map Inr ds :: (error + Decision) list)"
    by simp
  then have "length ds = length requests" by (simp add: length_inspect_each)
  with m show ?thesis by simp
qed

text \<open>
  C5 on a batch of three requests to a guard whose intent plane raises on the second
  prompt: \<open>inspect_batch\<close> raises that exception and returns no decision, although the
  first and the third request, inspected alone, are allowed.
\<close>

theorem batch_raises_as_a_whole:
  "inspect_batch plain_guard batch_of_three = Inl (Raised ''intent plane crashed'')
   \<and> action_of (inspect plain_guard ''t1'' ''Hello'' hello_session) = Some ALLOW
   \<and> action_of (inspect plain_guard ''t3'' ''Hi'' hello_session) = Some ALLOW"
  by (simp add: inspect_batch_def batch_of_three_def plain_guard_def
      inspect_defs example_defs plugin_defs decision_defs Let_def)

end
